theory Spec2Isabelle
  imports Main "HOL-Library.Word"
begin

unbundle bit_operations_syntax

section \<open>Default libpod configuration: runtime directory and conmon version gate\<close>

text \<open>
  A shallow embedding of \<^verbatim>\<open>defaultLibpodConfig.go\<close> (package \<^verbatim>\<open>config\<close>):
  \<^verbatim>\<open>probeConmon\<close>, \<^verbatim>\<open>getRuntimeDir\<close> and \<^verbatim>\<open>defaultTmpDir\<close>.
  Go strings are byte strings and are modelled as \<open>string\<close> (a list of 8-bit characters).
  A Go \<^verbatim>\<open>error\<close> value is an \<open>error option\<close>, \<open>None\<close> being \<^verbatim>\<open>nil\<close>.
  The identifiers of the source that start with an underscore lose it
  (\<^verbatim>\<open>_conmonMinMajorVersion\<close> is \<open>conmonMinMajorVersion\<close>).
\<close>

subsection \<open>Constants and error values\<close>

definition conmonMinMajorVersion :: int where
  "conmonMinMajorVersion = 2"

definition conmonMinMinorVersion :: int where
  "conmonMinMinorVersion = 0"

definition conmonMinPatchVersion :: int where
  "conmonMinPatchVersion = 1"

definition conmonVersionFormatErr :: string where
  "conmonVersionFormatErr = ''conmon version changed format''"

text \<open>
  The errors \<^verbatim>\<open>cmd.Run\<close> of \<^verbatim>\<open>os/exec\<close> can return: the binary was not found or could
  not be started, it exited with a non-zero status, or copying its output failed.
\<close>

datatype exec_error =
    ExecNotFound string
  | ExitError int
  | ExecIOError string

datatype num_err = ErrSyntax | ErrRange

datatype errno = EEXIST | ENOTEMPTY | ENOENT | EACCES | ENOTDIR | EPERM | EROFS | ELOOP

text \<open>
  The error values that the file creates or passes on. \<open>ErrConmonOutdated\<close> and
  \<open>ErrInvalidArg\<close> are the two package-level sentinels; \<open>ErrorString\<close> is what
  \<^verbatim>\<open>fmt.Errorf\<close> builds; \<open>NumError\<close> is \<^verbatim>\<open>strconv.NumError\<close> (function, input, cause);
  \<open>PathError\<close> is \<^verbatim>\<open>os.PathError\<close> (operation, path, errno); \<open>Wrapped\<close> is an error
  annotated with a message by \<^verbatim>\<open>errors.Wrap\<close> or \<^verbatim>\<open>errors.Wrapf\<close>.
\<close>

datatype error =
    ErrConmonOutdated
  | ErrInvalidArg
  | ErrorString string
  | ExecErr exec_error
  | NumError string string num_err
  | PathError string string errno
  | Wrapped error string

text \<open>
  \<^verbatim>\<open>errors.Wrap\<close> of \<^verbatim>\<open>github.com/pkg/errors\<close>: it annotates \<^verbatim>\<open>err\<close> with the message,
  and, as its documentation says, "If err is nil, Wrap returns nil."
\<close>

definition Wrap :: "error option \<Rightarrow> string \<Rightarrow> error option" where
  "Wrap err message = (case err of None \<Rightarrow> None | Some e \<Rightarrow> Some (Wrapped e message))"

text \<open>Whether an error is the one that reports a changed version format.\<close>

fun is_version_format_error :: "error \<Rightarrow> bool" where
  "is_version_format_error (Wrapped e m) = (m = conmonVersionFormatErr)"
| "is_version_format_error e = False"

subsection \<open>The version pattern\<close>

text \<open>
  \<^verbatim>\<open>regexp.MustCompile(`^conmon version (?P<Major>\d+).(?P<Minor>\d+).(?P<Patch>\d+)`)\<close>.
  In Go's syntax \<^verbatim>\<open>\d\<close> is an ASCII digit, and an unescaped \<^verbatim>\<open>.\<close> is any one
  character but a newline, where a character is one UTF-8 sequence of the text, or a
  single byte where the bytes are no valid sequence.
\<close>

definition is_digit :: "char \<Rightarrow> bool" where
  "is_digit c = (48 \<le> (of_char c :: nat) \<and> (of_char c :: nat) \<le> 57)"

definition byte_in :: "char \<Rightarrow> nat \<Rightarrow> nat \<Rightarrow> bool" where
  "byte_in c lo hi = (lo \<le> of_char c \<and> (of_char c :: nat) \<le> hi)"

text \<open>
  The number of bytes of the first character of a text, as \<^verbatim>\<open>utf8.DecodeRuneInString\<close>
  finds it: 1 for ASCII and for an invalid or cut-off sequence, 2 to 4 for a valid one.
\<close>

definition rune_width :: "string \<Rightarrow> nat" where
  "rune_width s =
     (case s of
        [] \<Rightarrow> 0
      | s0 # r \<Rightarrow>
          (let x = (of_char s0 :: nat) in
           if x < 0xC2 then 1
           else if x < 0xE0 then
             (case r of
                s1 # _ \<Rightarrow> if byte_in s1 0x80 0xBF then 2 else 1
              | _ \<Rightarrow> 1)
           else if x < 0xF0 then
             (case r of
                s1 # s2 # _ \<Rightarrow>
                  if byte_in s1 (if x = 0xE0 then 0xA0 else 0x80) (if x = 0xED then 0x9F else 0xBF)
                     \<and> byte_in s2 0x80 0xBF
                  then 3 else 1
              | _ \<Rightarrow> 1)
           else if x < 0xF5 then
             (case r of
                s1 # s2 # s3 # _ \<Rightarrow>
                  if byte_in s1 (if x = 0xF0 then 0x90 else 0x80) (if x = 0xF4 then 0x8F else 0xBF)
                     \<and> byte_in s2 0x80 0xBF \<and> byte_in s3 0x80 0xBF
                  then 4 else 1
              | _ \<Rightarrow> 1)
           else 1))"

fun strip_prefix :: "string \<Rightarrow> string \<Rightarrow> string option" where
  "strip_prefix [] s = Some s"
| "strip_prefix (p # ps) [] = None"
| "strip_prefix (p # ps) (c # cs) = (if p = c then strip_prefix ps cs else None)"

text \<open>
  \<^verbatim>\<open>(\d+)\<close>: every way to split off a non-empty run of leading digits, the longest
  first (the repetition is greedy), as pairs of the captured digits and the rest.
\<close>

definition digit_groups :: "string \<Rightarrow> (string \<times> string) list" where
  "digit_groups s =
     map (\<lambda>k. (take k s, drop k s)) (rev [1 ..< Suc (length (takeWhile is_digit s))])"

text \<open>The unescaped \<^verbatim>\<open>.\<close>: the rest after one character that is not a newline.\<close>

definition any_char :: "string \<Rightarrow> string list" where
  "any_char s =
     (case s of
        [] \<Rightarrow> []
      | c # _ \<Rightarrow> if c = CHR 0x0A then [] else [drop (rune_width s) s])"

text \<open>
  All the ways the pattern matches at the start of the text, in the order of preference
  of a leftmost-first matcher: an earlier repetition gives up a digit only after every
  choice of the later ones has failed. A match is the list
  \<^verbatim>\<open>[whole match, Major, Minor, Patch]\<close>.
\<close>

definition version_matches :: "string \<Rightarrow> string list list" where
  "version_matches s =
     (case strip_prefix ''conmon version '' s of
        None \<Rightarrow> []
      | Some r0 \<Rightarrow>
          [ [take (length s - length r5) s, major, minor, patch] .
              (major, r1) \<leftarrow> digit_groups r0, r2 \<leftarrow> any_char r1,
              (minor, r3) \<leftarrow> digit_groups r2, r4 \<leftarrow> any_char r3,
              (patch, r5) \<leftarrow> digit_groups r4 ])"

text \<open>
  \<^verbatim>\<open>r.FindStringSubmatch\<close>: the preferred match, or \<^verbatim>\<open>nil\<close> (the empty list) when the
  pattern does not match.
\<close>

definition FindStringSubmatch :: "string \<Rightarrow> string list" where
  "FindStringSubmatch s = (case version_matches s of [] \<Rightarrow> [] | m # _ \<Rightarrow> m)"

subsection \<open>Integer parsing\<close>

text \<open>
  \<^verbatim>\<open>strconv.Atoi\<close> for a 64-bit \<^verbatim>\<open>int\<close>: an optional sign, then decimal digits only;
  a value outside the range of \<^verbatim>\<open>int\<close> is a range error.
\<close>

definition digit_val :: "char \<Rightarrow> int" where
  "digit_val c = int (of_char c) - 48"

definition decimal :: "string \<Rightarrow> int" where
  "decimal ds = foldl (\<lambda>n c. n * 10 + digit_val c) 0 ds"

definition Atoi :: "string \<Rightarrow> error + int" where
  "Atoi s =
     (let neg = (case s of c # _ \<Rightarrow> c = CHR ''-'' | [] \<Rightarrow> False);
          body = (case s of c # r \<Rightarrow> if c = CHR ''-'' \<or> c = CHR ''+'' then r else s | [] \<Rightarrow> s)
      in if body = [] \<or> \<not> list_all is_digit body then Inl (NumError ''Atoi'' s ErrSyntax)
         else if neg then
           (if decimal body > 2 ^ 63 then Inl (NumError ''Atoi'' s ErrRange)
            else Inr (- decimal body))
         else
           (if decimal body > 2 ^ 63 - 1 then Inl (NumError ''Atoi'' s ErrRange)
            else Inr (decimal body)))"

subsection \<open>probeConmon\<close>

text \<open>
  \<^verbatim>\<open>probeConmon\<close> runs \<^verbatim>\<open>conmonBinary --version\<close>. The external process is the
  parameter \<open>run\<close>: for a binary and its arguments it gives the captured standard output
  and the error of \<^verbatim>\<open>cmd.Run\<close>. The variable \<^verbatim>\<open>err\<close> of the source is assigned by
  \<^verbatim>\<open>cmd.Run\<close> and is \<^verbatim>\<open>nil\<close> where the length of \<^verbatim>\<open>matches\<close> is tested.
\<close>

definition probeConmon ::
  "(string \<Rightarrow> string list \<Rightarrow> string \<times> exec_error option) \<Rightarrow> string \<Rightarrow> error option" where
  "probeConmon run conmonBinary =
     (let (out, run_err) = run conmonBinary [''--version''];
          err = map_option ExecErr run_err
      in if err \<noteq> None then err
         else
           let matches = FindStringSubmatch out in
           if length matches \<noteq> 4 then Wrap err conmonVersionFormatErr
           else
             (case Atoi (matches ! 1) of
                Inl e \<Rightarrow> Wrap (Some e) conmonVersionFormatErr
              | Inr major \<Rightarrow>
                  if major < conmonMinMajorVersion then Some ErrConmonOutdated
                  else if major > conmonMinMajorVersion then None
                  else
                    (case Atoi (matches ! 2) of
                       Inl e \<Rightarrow> Wrap (Some e) conmonVersionFormatErr
                     | Inr minor \<Rightarrow>
                         if minor < conmonMinMinorVersion then Some ErrConmonOutdated
                         else if minor > conmonMinMinorVersion then None
                         else
                           (case Atoi (matches ! 3) of
                              Inl e \<Rightarrow> Wrap (Some e) conmonVersionFormatErr
                            | Inr patch \<Rightarrow>
                                if patch < conmonMinPatchVersion then Some ErrConmonOutdated
                                else if patch > conmonMinPatchVersion then None
                                else None))))"

subsection \<open>Formatting and paths\<close>

text \<open>\<^verbatim>\<open>fmt.Sprintf("%d", n)\<close>: the decimal digits of an integer, with a minus sign if negative.\<close>

fun nat_digits :: "nat \<Rightarrow> string" where
  "nat_digits n =
     (if n < 10 then [char_of (48 + n)]
      else nat_digits (n div 10) @ [char_of (48 + n mod 10)])"

definition Sprintf_d :: "int \<Rightarrow> string" where
  "Sprintf_d n = (if n < 0 then CHR ''-'' # nat_digits (nat (- n)) else nat_digits (nat n))"

text \<open>
  \<^verbatim>\<open>filepath.Join\<close> on Unix: the elements from the first non-empty one on are joined
  with slashes and the result is cleaned by \<^verbatim>\<open>filepath.Clean\<close>: repeated slashes and
  \<^verbatim>\<open>.\<close> elements go, a \<^verbatim>\<open>..\<close> element removes the element before it (at the root it
  goes; in a relative path with nothing before it, it stays), and the empty result is
  \<^verbatim>\<open>.\<close>. No element at all gives the empty string.
\<close>

fun split_slash :: "string \<Rightarrow> string list" where
  "split_slash [] = [[]]"
| "split_slash (c # cs) =
     (if c = CHR ''/'' then [] # split_slash cs
      else (case split_slash cs of
              [] \<Rightarrow> [[c]]
            | x # xs \<Rightarrow> (c # x) # xs))"

fun join_slash :: "string list \<Rightarrow> string" where
  "join_slash [] = []"
| "join_slash [x] = x"
| "join_slash (x # y # zs) = x @ CHR ''/'' # join_slash (y # zs)"

definition clean_step :: "bool \<Rightarrow> string list \<Rightarrow> string \<Rightarrow> string list" where
  "clean_step rooted out el =
     (if el = [] \<or> el = ''.'' then out
      else if el = ''..'' then
        (if out \<noteq> [] \<and> last out \<noteq> ''..'' then butlast out
         else if rooted then out
         else out @ [''..''])
      else out @ [el])"

definition Clean :: "string \<Rightarrow> string" where
  "Clean path =
     (case path of
        [] \<Rightarrow> ''.''
      | c # _ \<Rightarrow>
          (let rooted = (c = CHR ''/'');
               out = join_slash (foldl (clean_step rooted) [] (split_slash path))
           in if rooted then CHR ''/'' # out
              else if out = [] then ''.'' else out))"

definition Join :: "string list \<Rightarrow> string" where
  "Join elem =
     (case dropWhile (\<lambda>e. e = []) elem of
        [] \<Rightarrow> []
      | es \<Rightarrow> Clean (join_slash es))"

subsection \<open>The operating system and the process state\<close>

text \<open>
  \<^verbatim>\<open>os.FileMode\<close> is a 32-bit word: the permission bits are the low nine
  (\<^verbatim>\<open>ModePerm = 0777\<close>), \<^verbatim>\<open>ModeSticky\<close> is bit 20. \<^verbatim>\<open>0700\<close> is 448.
\<close>

type_synonym FileMode = "32 word"

definition ModePerm :: FileMode where
  "ModePerm = 511"

definition ModeSticky :: FileMode where
  "ModeSticky = push_bit 20 1"

definition Perm :: "FileMode \<Rightarrow> FileMode" where
  "Perm m = m AND ModePerm"

text \<open>What the source reads of an \<^verbatim>\<open>os.FileInfo\<close>: the owner and the mode.\<close>

record fileInfo =
  Uid :: "32 word"
  Mode :: FileMode

text \<open>
  The operating system is a parameter of the model: the environment variables, the
  user ids, and what the file system (a state of any type \<open>'fs\<close>) answers to each call.
  The result of \<^verbatim>\<open>unshare.GetRootlessUID\<close>, a function of another package, is taken
  as a given value. The theorems hold for every such system.
\<close>

record 'fs os =
  environ :: "string \<Rightarrow> string"
  geteuid :: int
  getRootlessUID :: int
  mkdirAll :: "string \<Rightarrow> FileMode \<Rightarrow> 'fs \<Rightarrow> error option \<times> 'fs"
  mkdir :: "string \<Rightarrow> FileMode \<Rightarrow> 'fs \<Rightarrow> error option \<times> 'fs"
  chmod :: "string \<Rightarrow> FileMode \<Rightarrow> 'fs \<Rightarrow> error option \<times> 'fs"
  stat :: "string \<Rightarrow> 'fs \<Rightarrow> error + fileInfo"
  evalSymlinks :: "string \<Rightarrow> 'fs \<Rightarrow> error + string"

text \<open>Every call the process makes to its environment is recorded, in order.\<close>

datatype call =
    CallGetenv string
  | CallMkdirAll string FileMode
  | CallMkdir string FileMode
  | CallChmod string FileMode
  | CallStat string
  | CallEvalSymlinks string

fun is_fs_call :: "call \<Rightarrow> bool" where
  "is_fs_call (CallGetenv k) = False"
| "is_fs_call c = True"

text \<open>
  The state of the process: the two package-level variables
  \<^verbatim>\<open>rootlessRuntimeDirOnce\<close> (whether the \<^verbatim>\<open>sync.Once\<close> has run) and
  \<^verbatim>\<open>rootlessRuntimeDir\<close>, the two package-level variables \<^verbatim>\<open>isRootlessOnce\<close> and
  \<^verbatim>\<open>isRootless\<close> of package \<^verbatim>\<open>unshare\<close>, the file system, the calls made so far and
  the messages given to \<^verbatim>\<open>logrus.Debugf\<close>.
\<close>

record 'fs proc =
  rootlessRuntimeDirOnce :: bool
  rootlessRuntimeDir :: string
  isRootlessOnce :: bool
  isRootless :: bool
  fsys :: "'fs"
  calls :: "call list"
  debug_log :: "string list"

text \<open>A process that starts: Go's zero values for the package-level variables.\<close>

definition start :: "'fs \<Rightarrow> 'fs proc" where
  "start fs = \<lparr>rootlessRuntimeDirOnce = False, rootlessRuntimeDir = [],
     isRootlessOnce = False, isRootless = False, fsys = fs,
     calls = [], debug_log = []\<rparr>"

definition os_Getenv :: "'fs os \<Rightarrow> string \<Rightarrow> 'fs proc \<Rightarrow> string \<times> 'fs proc" where
  "os_Getenv E key s = (environ E key, s\<lparr>calls := calls s @ [CallGetenv key]\<rparr>)"

text \<open>
  \<^verbatim>\<open>unshare.IsRootless\<close>, which \<^verbatim>\<open>defaultTmpDir\<close> calls, is a function of the package
  \<^verbatim>\<open>github.com/containers/common/pkg/unshare\<close>; its source is not in the file verified
  here, and the specification does not describe it. It is modelled on that package's
  implementation for Linux:
  \<^verbatim>\<open>isRootlessOnce.Do(func() { isRootless = os.Geteuid() != 0 || os.Getenv("_CONTAINERS_USERNS_CONFIGURED") != "" }); return isRootless\<close>.
  The first call computes the answer, and reads the environment variable only when the
  effective user is root (Go's \<^verbatim>\<open>||\<close> does not evaluate its right side when the left is
  true); later calls return the cached answer.
\<close>

definition unshare_IsRootless :: "'fs os \<Rightarrow> 'fs proc \<Rightarrow> bool \<times> 'fs proc" where
  "unshare_IsRootless E s =
     (if isRootlessOnce s then (isRootless s, s)
      else if geteuid E \<noteq> 0 then (True, s\<lparr>isRootlessOnce := True, isRootless := True\<rparr>)
      else
        (let (v, s1) = os_Getenv E ''_CONTAINERS_USERNS_CONFIGURED'' s
         in (v \<noteq> [], s1\<lparr>isRootlessOnce := True, isRootless := (v \<noteq> [])\<rparr>)))"

definition os_MkdirAll ::
  "'fs os \<Rightarrow> string \<Rightarrow> FileMode \<Rightarrow> 'fs proc \<Rightarrow> error option \<times> 'fs proc" where
  "os_MkdirAll E path perm s =
     (let (err, fs') = mkdirAll E path perm (fsys s)
      in (err, s\<lparr>fsys := fs', calls := calls s @ [CallMkdirAll path perm]\<rparr>))"

definition os_Mkdir ::
  "'fs os \<Rightarrow> string \<Rightarrow> FileMode \<Rightarrow> 'fs proc \<Rightarrow> error option \<times> 'fs proc" where
  "os_Mkdir E path perm s =
     (let (err, fs') = mkdir E path perm (fsys s)
      in (err, s\<lparr>fsys := fs', calls := calls s @ [CallMkdir path perm]\<rparr>))"

definition os_Chmod ::
  "'fs os \<Rightarrow> string \<Rightarrow> FileMode \<Rightarrow> 'fs proc \<Rightarrow> error option \<times> 'fs proc" where
  "os_Chmod E path perm s =
     (let (err, fs') = chmod E path perm (fsys s)
      in (err, s\<lparr>fsys := fs', calls := calls s @ [CallChmod path perm]\<rparr>))"

definition os_Stat :: "'fs os \<Rightarrow> string \<Rightarrow> 'fs proc \<Rightarrow> (error + fileInfo) \<times> 'fs proc" where
  "os_Stat E path s = (stat E path (fsys s), s\<lparr>calls := calls s @ [CallStat path]\<rparr>)"

definition filepath_EvalSymlinks ::
  "'fs os \<Rightarrow> string \<Rightarrow> 'fs proc \<Rightarrow> (error + string) \<times> 'fs proc" where
  "filepath_EvalSymlinks E path s =
     (evalSymlinks E path (fsys s), s\<lparr>calls := calls s @ [CallEvalSymlinks path]\<rparr>)"

text \<open>\<^verbatim>\<open>os.TempDir\<close> on Unix: \<^verbatim>\<open>$TMPDIR\<close>, or \<^verbatim>\<open>/tmp\<close> when that is empty.\<close>

definition os_TempDir :: "'fs os \<Rightarrow> 'fs proc \<Rightarrow> string \<times> 'fs proc" where
  "os_TempDir E s =
     (let (dir, s') = os_Getenv E ''TMPDIR'' s
      in (if dir = [] then ''/tmp'' else dir, s'))"

definition logrus_Debugf :: "string \<Rightarrow> 'fs proc \<Rightarrow> 'fs proc" where
  "logrus_Debugf msg s = s\<lparr>debug_log := debug_log s @ [msg]\<rparr>"

text \<open>\<^verbatim>\<open>os.IsExist\<close>: the error says that the file or directory exists already.\<close>

fun os_IsExist :: "error \<Rightarrow> bool" where
  "os_IsExist (PathError oper path e) = (e = EEXIST \<or> e = ENOTEMPTY)"
| "os_IsExist e = False"

subsection \<open>getRuntimeDir\<close>

text \<open>
  The function given to \<^verbatim>\<open>rootlessRuntimeDirOnce.Do\<close> is three \<^verbatim>\<open>if runtimeDir == ""\<close>
  statements in a row, after the two assignments of \<^verbatim>\<open>runtimeDir\<close> and \<^verbatim>\<open>uid\<close>.
  Each statement is a definition here, on the local variable \<^verbatim>\<open>runtimeDir\<close> and the
  state of the process.

  The first statement (lines 180 to 189): the directory \<^verbatim>\<open>/run/user/<uid>\<close>.
\<close>

definition tryRunUserDir ::
  "'fs os \<Rightarrow> string \<Rightarrow> string \<times> 'fs proc \<Rightarrow> string \<times> 'fs proc" where
  "tryRunUserDir E uid rs =
     (let (runtimeDir, s) = rs
      in if runtimeDir = [] then
           (let tmpDir = Join [''/run'', ''user'', uid];
                (err, sa) = os_MkdirAll E tmpDir 448 s;
                sb = (if err \<noteq> None
                      then logrus_Debugf (''unable to make temp dir '' @ tmpDir) sa
                      else sa);
                (st, sc) = os_Stat E tmpDir sb
            in (case st of
                  Inr fi \<Rightarrow>
                    if uint (Uid fi) = geteuid E \<and> Perm (Mode fi) = 448
                    then (tmpDir, sc) else (runtimeDir, sc)
                | Inl err \<Rightarrow> (runtimeDir, sc)))
         else (runtimeDir, s))"

text \<open>The second statement (lines 190 to 199): \<^verbatim>\<open>run-<uid>\<close> under \<^verbatim>\<open>os.TempDir()\<close>.\<close>

definition tryTempDir ::
  "'fs os \<Rightarrow> string \<Rightarrow> string \<times> 'fs proc \<Rightarrow> string \<times> 'fs proc" where
  "tryTempDir E uid rs =
     (let (runtimeDir, s) = rs
      in if runtimeDir = [] then
           (let (tmp, st) = os_TempDir E s;
                tmpDir = Join [tmp, ''run-'' @ uid];
                (err, sa) = os_MkdirAll E tmpDir 448 st;
                sb = (if err \<noteq> None
                      then logrus_Debugf (''unable to make temp dir '' @ tmpDir) sa
                      else sa);
                (st, sc) = os_Stat E tmpDir sb
            in (case st of
                  Inr fi \<Rightarrow>
                    if uint (Uid fi) = geteuid E \<and> Perm (Mode fi) = 448
                    then (tmpDir, sc) else (runtimeDir, sc)
                | Inl err \<Rightarrow> (runtimeDir, sc)))
         else (runtimeDir, s))"

text \<open>
  The third statement and the final assignment (lines 200 to 213): \<^verbatim>\<open>rundir\<close> under the
  resolved \<^verbatim>\<open>$HOME\<close>. The result is what the function leaves in the variable
  \<^verbatim>\<open>rootlessRuntimeDirError\<close> of the enclosing call (\<open>None\<close> when it does not assign
  it); \<^verbatim>\<open>rootlessRuntimeDir\<close> is assigned only on the paths that reach line 213.
\<close>

definition useHomeDir :: "'fs os \<Rightarrow> string \<times> 'fs proc \<Rightarrow> error option \<times> 'fs proc" where
  "useHomeDir E rs =
     (let (runtimeDir, s) = rs
      in if runtimeDir = [] then
           (let (home, s4) = os_Getenv E ''HOME'' s
            in if home = [] then
                 (Some (ErrorString ''neither XDG_RUNTIME_DIR nor HOME was set non-empty''), s4)
               else
                 (let (res, s5) = filepath_EvalSymlinks E home s4
                  in (case res of
                        Inl err \<Rightarrow> (Wrap (Some err) (''cannot resolve '' @ home), s5)
                      | Inr resolvedHome \<Rightarrow>
                          (None, s5\<lparr>rootlessRuntimeDir := Join [resolvedHome, ''rundir'']\<rparr>))))
         else (None, s\<lparr>rootlessRuntimeDir := runtimeDir\<rparr>))"

definition resolveRuntimeDir :: "'fs os \<Rightarrow> 'fs proc \<Rightarrow> error option \<times> 'fs proc" where
  "resolveRuntimeDir E s0 =
     (let (runtimeDir, s1) = os_Getenv E ''XDG_RUNTIME_DIR'' s0;
          uid = Sprintf_d (getRootlessUID E)
      in useHomeDir E (tryTempDir E uid (tryRunUserDir E uid (runtimeDir, s1))))"

text \<open>
  \<^verbatim>\<open>getRuntimeDir\<close>: \<^verbatim>\<open>var rootlessRuntimeDirError error\<close> is a local variable, \<^verbatim>\<open>nil\<close>
  at the start of every call. \<^verbatim>\<open>Once.Do\<close> runs the function only if no call has run it
  before, and marks it as run when it returns, also when it returns early.
\<close>

definition getRuntimeDir :: "'fs os \<Rightarrow> 'fs proc \<Rightarrow> (string \<times> error option) \<times> 'fs proc" where
  "getRuntimeDir E s =
     (let (rootlessRuntimeDirError, s') =
            (if rootlessRuntimeDirOnce s then (None, s)
             else (let (e, s1) = resolveRuntimeDir E s
                   in (e, s1\<lparr>rootlessRuntimeDirOnce := True\<rparr>)))
      in if rootlessRuntimeDirError \<noteq> None then (([], rootlessRuntimeDirError), s')
         else ((rootlessRuntimeDir s', None), s'))"

text \<open>
  The result and the state of call number \<open>n + 1\<close> to \<^verbatim>\<open>getRuntimeDir\<close> in a process
  that is in state \<open>s\<close> before call number 1.
\<close>

fun nth_call :: "'fs os \<Rightarrow> nat \<Rightarrow> 'fs proc \<Rightarrow> (string \<times> error option) \<times> 'fs proc" where
  "nth_call E 0 s = getRuntimeDir E s"
| "nth_call E (Suc n) s = nth_call E n (snd (getRuntimeDir E s))"

subsection \<open>defaultTmpDir\<close>

definition defaultTmpDir :: "'fs os \<Rightarrow> 'fs proc \<Rightarrow> (string \<times> error option) \<times> 'fs proc" where
  "defaultTmpDir E s0 =
     (let (rootless, s) = unshare_IsRootless E s0
      in
      if \<not> rootless then ((''/var/run/libpod'', None), s)
      else
        (let ((runtimeDir, err), s1) = getRuntimeDir E s
         in if err \<noteq> None then (([], err), s1)
            else
              (let libpodRuntimeDir = Join [runtimeDir, ''libpod''];
                   (err, s2) = os_Mkdir E libpodRuntimeDir (448 OR ModeSticky) s1
               in (case err of
                     None \<Rightarrow> ((Join [libpodRuntimeDir, ''tmp''], None), s2)
                   | Some e \<Rightarrow>
                       if \<not> os_IsExist e
                       then (([], Wrap (Some e) (''cannot mkdir '' @ libpodRuntimeDir)), s2)
                       else
                         (let (err, s3) = os_Chmod E libpodRuntimeDir (448 OR ModeSticky) s2
                          in (case err of
                                Some e' \<Rightarrow>
                                  (([], Wrap (Some e')
                                      (''could not set sticky bit on '' @ libpodRuntimeDir)), s3)
                              | None \<Rightarrow> ((Join [libpodRuntimeDir, ''tmp''], None), s3)))))))"

subsection \<open>The specification's notions\<close>

text \<open>
  The specification's test of a candidate directory: the \<^verbatim>\<open>stat\<close> succeeded, the owner
  is the current effective user, and the permission bits are exactly \<^verbatim>\<open>0700\<close>.
\<close>

definition dir_usable :: "'fs os \<Rightarrow> error + fileInfo \<Rightarrow> bool" where
  "dir_usable E r =
     (case r of
        Inl e \<Rightarrow> False
      | Inr fi \<Rightarrow> uint (Uid fi) = geteuid E \<and> Mode fi AND 511 = 448)"

text \<open>
  The specification's order on version triples: lexicographic on major, minor, patch.
\<close>

definition version_ge :: "int \<times> int \<times> int \<Rightarrow> int \<times> int \<times> int \<Rightarrow> bool" where
  "version_ge v w =
     (case (v, w) of
        ((a, b, c), (x, y, z)) \<Rightarrow> a > x \<or> (a = x \<and> (b > y \<or> (b = y \<and> c \<ge> z))))"

text \<open>
  The candidates of the resolution, in the order of the specification: the per-user
  runtime root \<^verbatim>\<open>/run/user/<uid>\<close>, and \<^verbatim>\<open>run-<uid>\<close> under the system's temporary
  directory. \<open>after_first\<close> and \<open>after_second\<close> are the file system after the attempt
  to create the first, and then the second, candidate; \<open>first_ok\<close> and \<open>second_ok\<close>
  say that the candidate is usable in the file system in which it is examined.
\<close>

definition tempDir :: "'fs os \<Rightarrow> string" where
  "tempDir E = (if environ E ''TMPDIR'' = [] then ''/tmp'' else environ E ''TMPDIR'')"

definition runUserDir :: "'fs os \<Rightarrow> string" where
  "runUserDir E = Join [''/run'', ''user'', Sprintf_d (getRootlessUID E)]"

definition tempRunDir :: "'fs os \<Rightarrow> string" where
  "tempRunDir E = Join [tempDir E, ''run-'' @ Sprintf_d (getRootlessUID E)]"

definition after_first :: "'fs os \<Rightarrow> 'fs \<Rightarrow> 'fs" where
  "after_first E fs = snd (mkdirAll E (runUserDir E) 448 fs)"

definition after_second :: "'fs os \<Rightarrow> 'fs \<Rightarrow> 'fs" where
  "after_second E fs = snd (mkdirAll E (tempRunDir E) 448 (after_first E fs))"

definition first_ok :: "'fs os \<Rightarrow> 'fs \<Rightarrow> bool" where
  "first_ok E fs = dir_usable E (stat E (runUserDir E) (after_first E fs))"

definition second_ok :: "'fs os \<Rightarrow> 'fs \<Rightarrow> bool" where
  "second_ok E fs = dir_usable E (stat E (tempRunDir E) (after_second E fs))"

text \<open>
  The fourth step of the specification: \<^verbatim>\<open>rundir\<close> under the home directory with its
  symbolic links resolved, or the error of the resolution.
\<close>

definition home_result :: "'fs os \<Rightarrow> 'fs \<Rightarrow> string \<times> error option" where
  "home_result E fs =
     (case evalSymlinks E (environ E ''HOME'') fs of
        Inl e \<Rightarrow> ([], Some (Wrapped e (''cannot resolve '' @ environ E ''HOME'')))
      | Inr resolvedHome \<Rightarrow> (Join [resolvedHome, ''rundir''], None))"

text \<open>
  The resolution of the specification as one decision: the override of the
  environment, then the two candidates in order, then the home directory, and the
  error when the home directory is not set either.
\<close>

definition first_resolution :: "'fs os \<Rightarrow> 'fs \<Rightarrow> string \<times> error option" where
  "first_resolution E fs =
     (if environ E ''XDG_RUNTIME_DIR'' \<noteq> [] then (environ E ''XDG_RUNTIME_DIR'', None)
      else if first_ok E fs then (runUserDir E, None)
      else if second_ok E fs then (tempRunDir E, None)
      else if environ E ''HOME'' = [] then
        ([], Some (ErrorString ''neither XDG_RUNTIME_DIR nor HOME was set non-empty''))
      else home_result E (after_second E fs))"

subsection \<open>Concrete systems for the examples\<close>

text \<open>
  A file system that is a list of paths with their owner and mode and that cannot be
  written: every creation and change fails, \<^verbatim>\<open>stat\<close> looks the path up, and there are
  no symbolic links.
\<close>

definition readonly_os :: "(string \<Rightarrow> string) \<Rightarrow> int \<Rightarrow> ((string \<times> fileInfo) list) os" where
  "readonly_os env uid =
     \<lparr>environ = env, geteuid = uid, getRootlessUID = uid,
      mkdirAll = (\<lambda>p m fs. (Some (PathError ''mkdir'' p EROFS), fs)),
      mkdir = (\<lambda>p m fs. (Some (PathError ''mkdir'' p EROFS), fs)),
      chmod = (\<lambda>p m fs. (Some (PathError ''chmod'' p EROFS), fs)),
      stat = (\<lambda>p fs. case map_of fs p of
                        None \<Rightarrow> Inl (PathError ''stat'' p ENOENT)
                      | Some fi \<Rightarrow> Inr fi),
      evalSymlinks = (\<lambda>p fs. Inr p)\<rparr>"

definition env_of :: "(string \<times> string) list \<Rightarrow> string \<Rightarrow> string" where
  "env_of kvs k = (case map_of kvs k of None \<Rightarrow> [] | Some v \<Rightarrow> v)"

text \<open>The external command that succeeds and prints the given text.\<close>

definition prints :: "string \<Rightarrow> string \<Rightarrow> string list \<Rightarrow> string \<times> exec_error option" where
  "prints out binary args = (out, None)"

text \<open>
  Two directories of user 1000: one with mode \<^verbatim>\<open>drwx------\<close> (the directory bit and
  \<^verbatim>\<open>0700\<close>), one with mode \<^verbatim>\<open>drwxr-xr-x\<close> (the directory bit and \<^verbatim>\<open>0755\<close>).
\<close>

definition dir0700 :: fileInfo where
  "dir0700 = \<lparr>Uid = 1000, Mode = 2147484096\<rparr>"

definition dir0755 :: fileInfo where
  "dir0755 = \<lparr>Uid = 1000, Mode = 2147484141\<rparr>"

section \<open>The version gate\<close>

subsection \<open>probeConmon after a successful run\<close>

text \<open>
  When the command has run without error, \<^verbatim>\<open>err\<close> is \<^verbatim>\<open>nil\<close> at the test of the
  number of matches, so \<^verbatim>\<open>errors.Wrap(err, ...)\<close> there is \<^verbatim>\<open>nil\<close>; the three later
  calls wrap the error of \<^verbatim>\<open>strconv.Atoi\<close>, which is not \<^verbatim>\<open>nil\<close>.
\<close>

lemma probeConmon_run_ok:
  assumes "run b [''--version''] = (out, None)"
  shows "probeConmon run b =
     (let matches = FindStringSubmatch out in
           if length matches \<noteq> 4 then None
           else
             (case Atoi (matches ! 1) of
                Inl e \<Rightarrow> Some (Wrapped e conmonVersionFormatErr)
              | Inr major \<Rightarrow>
                  if major < 2 then Some ErrConmonOutdated
                  else if major > 2 then None
                  else
                    (case Atoi (matches ! 2) of
                       Inl e \<Rightarrow> Some (Wrapped e conmonVersionFormatErr)
                     | Inr minor \<Rightarrow>
                         if minor < 0 then Some ErrConmonOutdated
                         else if minor > 0 then None
                         else
                           (case Atoi (matches ! 3) of
                              Inl e \<Rightarrow> Some (Wrapped e conmonVersionFormatErr)
                            | Inr patch \<Rightarrow>
                                if patch < 1 then Some ErrConmonOutdated
                                else None))))"
  using assms
  by (simp add: probeConmon_def Wrap_def Let_def conmonMinMajorVersion_def
      conmonMinMinorVersion_def conmonMinPatchVersion_def split: sum.splits)

lemmas conmonMin_defs = conmonMinMajorVersion_def conmonMinMinorVersion_def
  conmonMinPatchVersion_def

lemma probeConmon_no_match:
  assumes "run b [''--version''] = (out, None)"
    and "length (FindStringSubmatch out) \<noteq> 4"
  shows "probeConmon run b = None"
  using assms(2) by (simp add: probeConmon_run_ok[of run b out, OF assms(1)])

text \<open>The pattern gives no match or exactly the whole match and three groups.\<close>

lemma version_matches_length:
  "m \<in> set (version_matches s) \<Longrightarrow> length m = 4"
  by (auto simp: version_matches_def split: option.splits)

lemma FindStringSubmatch_length:
  "FindStringSubmatch s = [] \<or> length (FindStringSubmatch s) = 4"
proof (cases "version_matches s")
  case Nil
  then show ?thesis by (simp add: FindStringSubmatch_def)
next
  case (Cons m ms)
  then have "m \<in> set (version_matches s)" by simp
  then have "length m = 4" by (rule version_matches_length)
  with Cons show ?thesis by (simp add: FindStringSubmatch_def)
qed

text \<open>
  A match begins with the literal prefix, and each of its three groups is a non-empty
  run of ASCII digits. On such a group the integer parser fails only when the number is
  too large.
\<close>

lemma strip_prefix_Some: "strip_prefix p s = Some r \<Longrightarrow> s = p @ r"
  by (induction p s rule: strip_prefix.induct) (auto split: if_splits)

lemma take_prefix: "k \<le> length xs \<Longrightarrow> take k (xs @ ys) = take k xs"
  by simp

lemma digit_groups_mem:
  assumes "(d, r) \<in> set (digit_groups s)"
  shows "d \<noteq> [] \<and> list_all is_digit d \<and> s = d @ r"
proof -
  from assms obtain k where k: "1 \<le> k" "k \<le> length (takeWhile is_digit s)"
    and d: "d = take k s" and r: "r = drop k s"
    by (auto simp: digit_groups_def)
  have le: "k \<le> length s"
    using k(2) length_takeWhile_le[of is_digit s] by simp
  have "take k s = take k (takeWhile is_digit s)"
    using take_prefix[OF k(2), of "dropWhile is_digit s"]
    unfolding takeWhile_dropWhile_id .
  then have "set d \<subseteq> set (takeWhile is_digit s)"
    using d set_take_subset[of k "takeWhile is_digit s"] by simp
  then have "list_all is_digit d"
    by (auto simp: list_all_iff dest: set_takeWhileD)
  moreover have "d \<noteq> []" using d k(1) le by (cases s) auto
  moreover have "s = d @ r" using d r by simp
  ultimately show ?thesis by simp
qed

lemma version_matches_groups:
  assumes "[w, a, b, c] \<in> set (version_matches s)"
  shows "(\<exists>r. s = ''conmon version '' @ a @ r)
       \<and> a \<noteq> [] \<and> list_all is_digit a
       \<and> b \<noteq> [] \<and> list_all is_digit b
       \<and> c \<noteq> [] \<and> list_all is_digit c"
proof -
  from assms obtain r0 r1 r2 r3 r4 r5 where p: "Some r0 = strip_prefix ''conmon version '' s"
    and a: "(a, r1) \<in> set (digit_groups r0)"
    and b: "(b, r3) \<in> set (digit_groups r2)"
    and c: "(c, r5) \<in> set (digit_groups r4)"
    by (auto simp: version_matches_def split: option.splits)
  from strip_prefix_Some[OF p[symmetric]] digit_groups_mem[OF a] digit_groups_mem[OF b]
    digit_groups_mem[OF c]
  show ?thesis by auto
qed

lemma FindStringSubmatch_groups:
  assumes "FindStringSubmatch s = [w, a, b, c]"
  shows "(\<exists>r. s = ''conmon version '' @ a @ r)
       \<and> a \<noteq> [] \<and> list_all is_digit a
       \<and> b \<noteq> [] \<and> list_all is_digit b
       \<and> c \<noteq> [] \<and> list_all is_digit c"
proof -
  from assms have "[w, a, b, c] \<in> set (version_matches s)"
    by (cases "version_matches s") (auto simp: FindStringSubmatch_def)
  then show ?thesis by (rule version_matches_groups)
qed

lemma is_digit_not_sign: "is_digit c \<Longrightarrow> c \<noteq> CHR ''-'' \<and> c \<noteq> CHR ''+''"
  by (auto simp: is_digit_def)

lemma Atoi_digits:
  assumes "d \<noteq> []" and "list_all is_digit d"
  shows "Atoi d =
     (if decimal d > 2 ^ 63 - 1 then Inl (NumError ''Atoi'' d ErrRange) else Inr (decimal d))"
proof -
  from assms obtain c r where d: "d = c # r" and c: "is_digit c"
    by (cases d) auto
  from is_digit_not_sign[OF c] assms show ?thesis
    by (simp add: Atoi_def d Let_def)
qed


subsection \<open>Evaluations of the pattern and of the integer parser\<close>

lemma fss_201:
  "FindStringSubmatch ''conmon version 2.0.1'' = [''conmon version 2.0.1'', ''2'', ''0'', ''1'']"
  by code_simp

lemma fss_200:
  "FindStringSubmatch ''conmon version 2.0.0'' = [''conmon version 2.0.0'', ''2'', ''0'', ''0'']"
  by code_simp

lemma fss_300:
  "FindStringSubmatch ''conmon version 3.0.0'' = [''conmon version 3.0.0'', ''3'', ''0'', ''0'']"
  by code_simp

lemma fss_199:
  "FindStringSubmatch ''conmon version 1.9.9'' = [''conmon version 1.9.9'', ''1'', ''9'', ''9'']"
  by code_simp

lemma fss_210:
  "FindStringSubmatch ''conmon version 2.1.0'' = [''conmon version 2.1.0'', ''2'', ''1'', ''0'']"
  by code_simp

lemma fss_big1:
  "FindStringSubmatch ''conmon version 99999999999999999999.0.1'' =
     [''conmon version 99999999999999999999.0.1'', ''99999999999999999999'', ''0'', ''1'']"
  by code_simp

lemma fss_big2:
  "FindStringSubmatch ''conmon version 2.99999999999999999999.1'' =
     [''conmon version 2.99999999999999999999.1'', ''2'', ''99999999999999999999'', ''1'']"
  by code_simp

lemma fss_big3:
  "FindStringSubmatch ''conmon version 2.0.99999999999999999999'' =
     [''conmon version 2.0.99999999999999999999'', ''2'', ''0'', ''99999999999999999999'']"
  by code_simp

lemma fss_unreached1:
  "FindStringSubmatch ''conmon version 0.99999999999999999999.7'' =
     [''conmon version 0.99999999999999999999.7'', ''0'', ''99999999999999999999'', ''7'']"
  by code_simp

lemma fss_unreached2:
  "FindStringSubmatch ''conmon version 3.99999999999999999999.0'' =
     [''conmon version 3.99999999999999999999.0'', ''3'', ''99999999999999999999'', ''0'']"
  by code_simp

lemma fss_unreached3:
  "FindStringSubmatch ''conmon version 2.1.99999999999999999999'' =
     [''conmon version 2.1.99999999999999999999'', ''2'', ''1'', ''99999999999999999999'']"
  by code_simp

lemma atoi_small:
  "Atoi ''0'' = Inr 0" "Atoi ''1'' = Inr 1" "Atoi ''2'' = Inr 2" "Atoi ''3'' = Inr 3"
  "Atoi ''9'' = Inr 9"
  by code_simp+

lemma atoi_big:
  "Atoi ''99999999999999999999'' = Inl (NumError ''Atoi'' ''99999999999999999999'' ErrRange)"
  by code_simp

lemma prints_run: "prints out ''conmon'' [''--version''] = (out, None)"
  by (simp add: prints_def)

text \<open>
  The order of the specification on the triples it names:
  (2,0,0) < (2,0,1) < (2,1,0) < (3,0,0).
\<close>

lemma version_ge_examples:
  "\<not> version_ge (2, 0, 0) (2, 0, 1)" "version_ge (2, 0, 1) (2, 0, 0)"
  "\<not> version_ge (2, 0, 1) (2, 1, 0)" "version_ge (2, 1, 0) (2, 0, 1)"
  "\<not> version_ge (2, 1, 0) (3, 0, 0)" "version_ge (3, 0, 0) (2, 1, 0)"
  by (simp_all add: version_ge_def)

subsection \<open>Output that the pattern does not match\<close>

text \<open>
  Claim C1 says that output the pattern does not match, such as garbage text or empty
  output, makes \<^verbatim>\<open>probeConmon\<close> return a "version format changed" error that is not
  \<^verbatim>\<open>nil\<close>. The code returns \<^verbatim>\<open>errors.Wrap(err, _conmonVersionFormatErr)\<close> with the
  \<^verbatim>\<open>err\<close> of the successful \<^verbatim>\<open>cmd.Run\<close>, which is \<^verbatim>\<open>nil\<close>, and wrapping \<^verbatim>\<open>nil\<close> gives
  \<^verbatim>\<open>nil\<close>: on the text \<^verbatim>\<open>garbage output\<close> and on empty output the pattern does
  not match and \<^verbatim>\<open>probeConmon\<close> returns \<^verbatim>\<open>nil\<close>, which accepts the binary.
\<close>

theorem probeConmon_garbage_output:
  "FindStringSubmatch ''garbage output'' = []
   \<and> probeConmon (prints ''garbage output'') ''conmon'' = None
   \<and> FindStringSubmatch [] = []
   \<and> probeConmon (prints []) ''conmon'' = None"
  by code_simp

subsection \<open>The separators\<close>

text \<open>
  Claim C7 says that the pattern matches only three integers separated by literal dots,
  and rejects output whose integers are separated by any other character. The dots of
  the pattern are not escaped, so each stands for any character: the text
  \<^verbatim>\<open>conmon version 2x0y1\<close> is matched with the groups 2, 0 and 1, and
  \<^verbatim>\<open>probeConmon\<close> accepts it as version 2.0.1. (The prefix and the digits of the
  groups are as the claim says: lemma \<open>FindStringSubmatch_groups\<close>.)
\<close>

theorem probeConmon_any_separator:
  "FindStringSubmatch ''conmon version 2x0y1'' = [''conmon version 2x0y1'', ''2'', ''0'', ''1'']
   \<and> probeConmon (prints ''conmon version 2x0y1'') ''conmon'' = None"
  by code_simp

subsection \<open>The comparison with the minimum version\<close>

text \<open>
  Claim C3: for a version whose numbers are parsed, \<^verbatim>\<open>probeConmon\<close> returns \<^verbatim>\<open>nil\<close>
  exactly when the triple is at least (2,0,1) in the lexicographic order, and the
  Outdated error otherwise. A major number above 2 accepts and one below 2 rejects
  whatever the other two groups are (they are not even parsed); with the minor and the
  patch number parsed too, the result is decided by the order on the triples.
\<close>

theorem probeConmon_version_order:
  assumes run: "run b [''--version''] = (out, None)"
    and len: "length (FindStringSubmatch out) = 4"
    and major: "Atoi (FindStringSubmatch out ! 1) = Inr major"
  shows "(major > conmonMinMajorVersion \<longrightarrow> probeConmon run b = None)
       \<and> (major < conmonMinMajorVersion \<longrightarrow> probeConmon run b = Some ErrConmonOutdated)
       \<and> (\<forall>minor patch.
            Atoi (FindStringSubmatch out ! 2) = Inr minor
            \<and> Atoi (FindStringSubmatch out ! 3) = Inr patch \<longrightarrow>
            probeConmon run b =
              (if version_ge (major, minor, patch)
                    (conmonMinMajorVersion, conmonMinMinorVersion, conmonMinPatchVersion)
               then None else Some ErrConmonOutdated))"
  using len major
  by (auto simp: probeConmon_run_ok[of run b out, OF run] Let_def version_ge_def conmonMin_defs)

theorem probeConmon_version_order_witness:
  "probeConmon (prints ''conmon version 2.0.1'') ''conmon'' = None
   \<and> probeConmon (prints ''conmon version 2.0.0'') ''conmon'' = Some ErrConmonOutdated
   \<and> probeConmon (prints ''conmon version 2.1.0'') ''conmon'' = None
   \<and> probeConmon (prints ''conmon version 3.0.0'') ''conmon'' = None
   \<and> probeConmon (prints ''conmon version 1.9.9'') ''conmon'' = Some ErrConmonOutdated"
proof -
  have a: "probeConmon (prints ''conmon version 2.0.1'') ''conmon'' = None"
    using probeConmon_version_order[of "prints ''conmon version 2.0.1''" "''conmon''"
        "''conmon version 2.0.1''" 2, OF prints_run]
    by (simp add: fss_201 atoi_small version_ge_def conmonMin_defs)
  have b: "probeConmon (prints ''conmon version 2.0.0'') ''conmon'' = Some ErrConmonOutdated"
    using probeConmon_version_order[of "prints ''conmon version 2.0.0''" "''conmon''"
        "''conmon version 2.0.0''" 2, OF prints_run]
    by (simp add: fss_200 atoi_small version_ge_def conmonMin_defs)
  have c: "probeConmon (prints ''conmon version 2.1.0'') ''conmon'' = None"
    using probeConmon_version_order[of "prints ''conmon version 2.1.0''" "''conmon''"
        "''conmon version 2.1.0''" 2, OF prints_run]
    by (simp add: fss_210 atoi_small version_ge_def conmonMin_defs)
  have d: "probeConmon (prints ''conmon version 3.0.0'') ''conmon'' = None"
    using probeConmon_version_order[of "prints ''conmon version 3.0.0''" "''conmon''"
        "''conmon version 3.0.0''" 3, OF prints_run]
    by (simp add: fss_300 atoi_small version_ge_def conmonMin_defs)
  have e: "probeConmon (prints ''conmon version 1.9.9'') ''conmon'' = Some ErrConmonOutdated"
    using probeConmon_version_order[of "prints ''conmon version 1.9.9''" "''conmon''"
        "''conmon version 1.9.9''" 1, OF prints_run]
    by (simp add: fss_199 atoi_small version_ge_def conmonMin_defs)
  from a b c d e show ?thesis by simp
qed

subsection \<open>A group that does not parse\<close>

text \<open>
  Claim C8 says that a captured group on which integer parsing fails always gives the
  "version format changed" error and never the Outdated error. It fails on the text
  \<^verbatim>\<open>conmon version 1.99999999999999999999.0\<close>: the minor group is too large for an
  \<^verbatim>\<open>int\<close>, but the major number 1 is below 2 and \<^verbatim>\<open>probeConmon\<close> returns the Outdated
  error before it parses the minor group.
\<close>

theorem probeConmon_unparsed_minor_outdated:
  "FindStringSubmatch ''conmon version 1.99999999999999999999.0'' =
     [''conmon version 1.99999999999999999999.0'', ''1'', ''99999999999999999999'', ''0'']
   \<and> Atoi ''99999999999999999999'' = Inl (NumError ''Atoi'' ''99999999999999999999'' ErrRange)
   \<and> probeConmon (prints ''conmon version 1.99999999999999999999.0'') ''conmon''
       = Some ErrConmonOutdated
   \<and> \<not> is_version_format_error ErrConmonOutdated"
  by code_simp

text \<open>
  Claim C8 as amended: a group is parsed only when the comparison reaches it, and a
  parse failure on a group that is reached gives the "version format changed" error
  (the parser's error wrapped with that message), never the Outdated error. The major
  group is always reached; the minor group is reached when the major number equals the
  required 2; the patch group is reached when the major number equals 2 and the minor
  number equals the required 0. A group that is not reached is not parsed, and the
  result is decided by the groups before it, whatever the unreached groups are: a major
  number below 2 gives the Outdated error and one above 2 accepts; with major 2, a
  minor number below 0 gives the Outdated error and one above 0 accepts.
\<close>

theorem probeConmon_parse_failure:
  assumes run: "run b [''--version''] = (out, None)"
    and len: "length (FindStringSubmatch out) = 4"
  shows "(\<forall>e. Atoi (FindStringSubmatch out ! 1) = Inl e \<longrightarrow>
            probeConmon run b = Some (Wrapped e conmonVersionFormatErr))
       \<and> (\<forall>major. Atoi (FindStringSubmatch out ! 1) = Inr major
              \<and> major < conmonMinMajorVersion \<longrightarrow>
            probeConmon run b = Some ErrConmonOutdated)
       \<and> (\<forall>major. Atoi (FindStringSubmatch out ! 1) = Inr major
              \<and> major > conmonMinMajorVersion \<longrightarrow>
            probeConmon run b = None)
       \<and> (\<forall>e. Atoi (FindStringSubmatch out ! 1) = Inr conmonMinMajorVersion
              \<and> Atoi (FindStringSubmatch out ! 2) = Inl e \<longrightarrow>
            probeConmon run b = Some (Wrapped e conmonVersionFormatErr))
       \<and> (\<forall>minor. Atoi (FindStringSubmatch out ! 1) = Inr conmonMinMajorVersion
              \<and> Atoi (FindStringSubmatch out ! 2) = Inr minor
              \<and> minor < conmonMinMinorVersion \<longrightarrow>
            probeConmon run b = Some ErrConmonOutdated)
       \<and> (\<forall>minor. Atoi (FindStringSubmatch out ! 1) = Inr conmonMinMajorVersion
              \<and> Atoi (FindStringSubmatch out ! 2) = Inr minor
              \<and> minor > conmonMinMinorVersion \<longrightarrow>
            probeConmon run b = None)
       \<and> (\<forall>e. Atoi (FindStringSubmatch out ! 1) = Inr conmonMinMajorVersion
              \<and> Atoi (FindStringSubmatch out ! 2) = Inr conmonMinMinorVersion
              \<and> Atoi (FindStringSubmatch out ! 3) = Inl e \<longrightarrow>
            probeConmon run b = Some (Wrapped e conmonVersionFormatErr))
       \<and> (\<forall>e. is_version_format_error (Wrapped e conmonVersionFormatErr)
              \<and> Wrapped e conmonVersionFormatErr \<noteq> ErrConmonOutdated)"
  using len
  by (auto simp: probeConmon_run_ok[of run b out, OF run] Let_def conmonMin_defs)

theorem probeConmon_parse_failure_witness:
  "probeConmon (prints ''conmon version 99999999999999999999.0.1'') ''conmon'' =
     Some (Wrapped (NumError ''Atoi'' ''99999999999999999999'' ErrRange) conmonVersionFormatErr)
   \<and> probeConmon (prints ''conmon version 2.99999999999999999999.1'') ''conmon'' =
     Some (Wrapped (NumError ''Atoi'' ''99999999999999999999'' ErrRange) conmonVersionFormatErr)
   \<and> probeConmon (prints ''conmon version 2.0.99999999999999999999'') ''conmon'' =
     Some (Wrapped (NumError ''Atoi'' ''99999999999999999999'' ErrRange) conmonVersionFormatErr)
   \<and> Atoi (FindStringSubmatch ''conmon version 0.99999999999999999999.7'' ! 2) =
       Inl (NumError ''Atoi'' ''99999999999999999999'' ErrRange)
   \<and> probeConmon (prints ''conmon version 0.99999999999999999999.7'') ''conmon'' =
       Some ErrConmonOutdated
   \<and> Atoi (FindStringSubmatch ''conmon version 3.99999999999999999999.0'' ! 2) =
       Inl (NumError ''Atoi'' ''99999999999999999999'' ErrRange)
   \<and> probeConmon (prints ''conmon version 3.99999999999999999999.0'') ''conmon'' = None
   \<and> Atoi (FindStringSubmatch ''conmon version 2.1.99999999999999999999'' ! 3) =
       Inl (NumError ''Atoi'' ''99999999999999999999'' ErrRange)
   \<and> probeConmon (prints ''conmon version 2.1.99999999999999999999'') ''conmon'' = None"
proof -
  have a: "probeConmon (prints ''conmon version 99999999999999999999.0.1'') ''conmon'' =
     Some (Wrapped (NumError ''Atoi'' ''99999999999999999999'' ErrRange) conmonVersionFormatErr)"
    using probeConmon_parse_failure[of "prints ''conmon version 99999999999999999999.0.1''"
        "''conmon''" "''conmon version 99999999999999999999.0.1''", OF prints_run]
    by (simp add: fss_big1 atoi_big)
  have b: "probeConmon (prints ''conmon version 2.99999999999999999999.1'') ''conmon'' =
     Some (Wrapped (NumError ''Atoi'' ''99999999999999999999'' ErrRange) conmonVersionFormatErr)"
    using probeConmon_parse_failure[of "prints ''conmon version 2.99999999999999999999.1''"
        "''conmon''" "''conmon version 2.99999999999999999999.1''", OF prints_run]
    by (simp add: fss_big2 atoi_big atoi_small conmonMin_defs)
  have c: "probeConmon (prints ''conmon version 2.0.99999999999999999999'') ''conmon'' =
     Some (Wrapped (NumError ''Atoi'' ''99999999999999999999'' ErrRange) conmonVersionFormatErr)"
    using probeConmon_parse_failure[of "prints ''conmon version 2.0.99999999999999999999''"
        "''conmon''" "''conmon version 2.0.99999999999999999999''", OF prints_run]
    by (simp add: fss_big3 atoi_big atoi_small conmonMin_defs)
  have d: "probeConmon (prints ''conmon version 0.99999999999999999999.7'') ''conmon'' =
       Some ErrConmonOutdated"
    using probeConmon_parse_failure[of "prints ''conmon version 0.99999999999999999999.7''"
        "''conmon''" "''conmon version 0.99999999999999999999.7''", OF prints_run]
    by (simp add: fss_unreached1 atoi_small conmonMin_defs)
  have e: "probeConmon (prints ''conmon version 3.99999999999999999999.0'') ''conmon'' = None"
    using probeConmon_parse_failure[of "prints ''conmon version 3.99999999999999999999.0''"
        "''conmon''" "''conmon version 3.99999999999999999999.0''", OF prints_run]
    by (simp add: fss_unreached2 atoi_small conmonMin_defs)
  have f: "probeConmon (prints ''conmon version 2.1.99999999999999999999'') ''conmon'' = None"
    using probeConmon_parse_failure[of "prints ''conmon version 2.1.99999999999999999999''"
        "''conmon''" "''conmon version 2.1.99999999999999999999''", OF prints_run]
    by (simp add: fss_unreached3 atoi_small conmonMin_defs)
  from a b c d e f show ?thesis
    by (simp add: fss_unreached1 fss_unreached2 fss_unreached3 atoi_big)
qed

subsection \<open>A command that fails\<close>

text \<open>
  Claim C9: when running the command fails, \<^verbatim>\<open>probeConmon\<close> returns the error of the
  run, whatever was captured as output (the output is not parsed); that error is
  neither the Outdated error nor a "version format changed" error.
\<close>

theorem probeConmon_run_failed:
  assumes "run b [''--version''] = (out, Some e)"
  shows "probeConmon run b = Some (ExecErr e)
       \<and> ExecErr e \<noteq> ErrConmonOutdated
       \<and> \<not> is_version_format_error (ExecErr e)"
  using assms by (simp add: probeConmon_def)

theorem probeConmon_run_failed_witness:
  "probeConmon (\<lambda>b args. ([], Some (ExecNotFound b))) ''conmon''
     = Some (ExecErr (ExecNotFound ''conmon''))
   \<and> probeConmon (\<lambda>b args. (''conmon version 2.0.1'', Some (ExitError 1))) ''conmon''
     = Some (ExecErr (ExitError 1))"
  using probeConmon_run_failed[of "\<lambda>b args. ([], Some (ExecNotFound b))" "''conmon''" "[]"
      "ExecNotFound ''conmon''"]
    probeConmon_run_failed[of "\<lambda>b args. (''conmon version 2.0.1'', Some (ExitError 1))"
      "''conmon''" "''conmon version 2.0.1''" "ExitError 1"]
  by simp

section \<open>The runtime directory\<close>

subsection \<open>The three statements of the resolution\<close>

lemma dir_usable_iff:
  "dir_usable E r = (case r of Inl e \<Rightarrow> False
      | Inr fi \<Rightarrow> uint (Uid fi) = geteuid E \<and> Perm (Mode fi) = 448)"
  by (cases r) (simp_all add: dir_usable_def Perm_def ModePerm_def)

lemma os_TempDir_eq:
  "os_TempDir E s = (tempDir E, s\<lparr>calls := calls s @ [CallGetenv ''TMPDIR'']\<rparr>)"
  by (simp add: os_TempDir_def os_Getenv_def tempDir_def)

lemma tryRunUserDir_set:
  "r \<noteq> [] \<Longrightarrow> tryRunUserDir E uid (r, s) = (r, s)"
  by (simp add: tryRunUserDir_def)

lemma tryTempDir_set:
  "r \<noteq> [] \<Longrightarrow> tryTempDir E uid (r, s) = (r, s)"
  by (simp add: tryTempDir_def)

lemma tryRunUserDir_fst:
  "fst (tryRunUserDir E uid ([], s)) =
     (if dir_usable E (stat E (Join [''/run'', ''user'', uid])
          (snd (mkdirAll E (Join [''/run'', ''user'', uid]) 448 (fsys s))))
      then Join [''/run'', ''user'', uid] else [])"
  by (simp add: tryRunUserDir_def os_MkdirAll_def os_Stat_def logrus_Debugf_def
      dir_usable_iff Let_def split_def split: sum.split)

lemma tryRunUserDir_fsys:
  "fsys (snd (tryRunUserDir E uid ([], s))) =
     snd (mkdirAll E (Join [''/run'', ''user'', uid]) 448 (fsys s))"
  by (simp add: tryRunUserDir_def os_MkdirAll_def os_Stat_def logrus_Debugf_def
      Let_def split_def split: sum.split)

lemma tryRunUserDir_dir:
  "rootlessRuntimeDir (snd (tryRunUserDir E uid (r, s))) = rootlessRuntimeDir s"
  by (simp add: tryRunUserDir_def os_MkdirAll_def os_Stat_def logrus_Debugf_def
      Let_def split_def split: sum.split)

lemma tryTempDir_fst:
  "fst (tryTempDir E uid ([], s)) =
     (if dir_usable E (stat E (Join [tempDir E, ''run-'' @ uid])
          (snd (mkdirAll E (Join [tempDir E, ''run-'' @ uid]) 448 (fsys s))))
      then Join [tempDir E, ''run-'' @ uid] else [])"
  by (simp add: tryTempDir_def os_TempDir_eq os_MkdirAll_def os_Stat_def logrus_Debugf_def
      dir_usable_iff Let_def split_def split: sum.split)

lemma tryTempDir_fsys:
  "fsys (snd (tryTempDir E uid ([], s))) =
     snd (mkdirAll E (Join [tempDir E, ''run-'' @ uid]) 448 (fsys s))"
  by (simp add: tryTempDir_def os_TempDir_eq os_MkdirAll_def os_Stat_def logrus_Debugf_def
      Let_def split_def split: sum.split)

lemma tryTempDir_dir:
  "rootlessRuntimeDir (snd (tryTempDir E uid (r, s))) = rootlessRuntimeDir s"
  by (simp add: tryTempDir_def os_TempDir_eq os_MkdirAll_def os_Stat_def logrus_Debugf_def
      Let_def split_def split: sum.split)

lemma useHomeDir_fst:
  "fst (useHomeDir E (r, s)) =
     (if r \<noteq> [] then None
      else if environ E ''HOME'' = [] then
        Some (ErrorString ''neither XDG_RUNTIME_DIR nor HOME was set non-empty'')
      else snd (home_result E (fsys s)))"
  by (simp add: useHomeDir_def os_Getenv_def filepath_EvalSymlinks_def Wrap_def home_result_def
      Let_def split: sum.split)

lemma useHomeDir_dir:
  "rootlessRuntimeDir (snd (useHomeDir E (r, s))) =
     (if r \<noteq> [] then r
      else if environ E ''HOME'' = [] then rootlessRuntimeDir s
      else if snd (home_result E (fsys s)) = None then fst (home_result E (fsys s))
      else rootlessRuntimeDir s)"
  by (simp add: useHomeDir_def os_Getenv_def filepath_EvalSymlinks_def Wrap_def home_result_def
      Let_def split: sum.split)

lemma home_result_error:
  "snd (home_result E fs) \<noteq> None \<Longrightarrow> fst (home_result E fs) = []"
  by (simp add: home_result_def split: sum.splits)

lemma Clean_nonempty: "Clean p \<noteq> []"
  by (simp add: Clean_def Let_def split: list.split)

lemma Join_nonempty: "\<exists>e \<in> set elem. e \<noteq> [] \<Longrightarrow> Join elem \<noteq> []"
proof -
  assume "\<exists>e \<in> set elem. e \<noteq> []"
  then have "dropWhile (\<lambda>e. e = []) elem \<noteq> []"
    by (simp add: dropWhile_eq_Nil_conv)
  then show ?thesis
    by (simp add: Join_def Clean_nonempty split: list.split)
qed

lemma runUserDir_nonempty: "runUserDir E \<noteq> []"
  unfolding runUserDir_def by (rule Join_nonempty) simp

lemma tempRunDir_nonempty: "tempRunDir E \<noteq> []"
  unfolding tempRunDir_def by (rule Join_nonempty) simp

subsection \<open>The resolution as a whole\<close>

text \<open>
  A candidate path is never the empty string, so a usable candidate always ends the
  search.
\<close>

lemma first_resolution_error:
  "snd (first_resolution E fs) \<noteq> None \<Longrightarrow> fst (first_resolution E fs) = []"
  by (simp add: first_resolution_def home_result_error split: if_splits)

lemma resolveRuntimeDir_table:
  "fst (resolveRuntimeDir E s) = snd (first_resolution E (fsys s))"
  "rootlessRuntimeDir (snd (resolveRuntimeDir E s)) =
     (if snd (first_resolution E (fsys s)) = None then fst (first_resolution E (fsys s))
      else rootlessRuntimeDir s)"
proof -
  define uid where "uid = Sprintf_d (getRootlessUID E)"
  define s1 where "s1 = s\<lparr>calls := calls s @ [CallGetenv ''XDG_RUNTIME_DIR'']\<rparr>"
  define xdg where "xdg = environ E ''XDG_RUNTIME_DIR''"
  have res: "resolveRuntimeDir E s = useHomeDir E (tryTempDir E uid (tryRunUserDir E uid (xdg, s1)))"
    by (simp add: resolveRuntimeDir_def os_Getenv_def Let_def uid_def s1_def xdg_def)
  have s1: "fsys s1 = fsys s" "rootlessRuntimeDir s1 = rootlessRuntimeDir s"
    by (simp_all add: s1_def)
  obtain r1 t1 where b1: "tryRunUserDir E uid (xdg, s1) = (r1, t1)"
    by (cases "tryRunUserDir E uid (xdg, s1)")
  obtain r2 t2 where b2: "tryTempDir E uid (r1, t1) = (r2, t2)"
    by (cases "tryTempDir E uid (r1, t1)")
  have d1: "rootlessRuntimeDir t1 = rootlessRuntimeDir s"
    using tryRunUserDir_dir[of E uid xdg s1] by (simp add: b1 s1)
  have d2: "rootlessRuntimeDir t2 = rootlessRuntimeDir s"
    using tryTempDir_dir[of E uid r1 t1] by (simp add: b2 d1)
  have goal: "fst (useHomeDir E (r2, t2)) = snd (first_resolution E (fsys s))
      \<and> rootlessRuntimeDir (snd (useHomeDir E (r2, t2))) =
     (if snd (first_resolution E (fsys s)) = None then fst (first_resolution E (fsys s))
      else rootlessRuntimeDir s)"
  proof (cases "xdg = []")
    case False
    then have "r1 = xdg" "t1 = s1" using b1 by (simp_all add: tryRunUserDir_set)
    with False have "r2 = xdg" using b2 by (simp add: tryTempDir_set)
    with False show ?thesis
      by (simp add: useHomeDir_fst useHomeDir_dir first_resolution_def xdg_def)
  next
    case True
    have r1: "r1 = (if first_ok E (fsys s) then runUserDir E else [])"
      using tryRunUserDir_fst[of E uid s1] b1
      by (simp add: True s1 first_ok_def after_first_def runUserDir_def uid_def)
    have f1: "fsys t1 = after_first E (fsys s)"
      using tryRunUserDir_fsys[of E uid s1] b1
      by (simp add: True s1 after_first_def runUserDir_def uid_def)
    show ?thesis
    proof (cases "first_ok E (fsys s)")
      case ok1: True
      with r1 have r1': "r1 = runUserDir E" by simp
      then have "r2 = runUserDir E" using b2 runUserDir_nonempty[of E]
        by (simp add: tryTempDir_set)
      with ok1 True show ?thesis
        using runUserDir_nonempty[of E]
        by (simp add: useHomeDir_fst useHomeDir_dir first_resolution_def xdg_def)
    next
      case no1: False
      with r1 have r1': "r1 = []" by simp
      have r2: "r2 = (if second_ok E (fsys s) then tempRunDir E else [])"
        using tryTempDir_fst[of E uid t1] b2
        by (simp add: r1' f1 second_ok_def after_second_def tempRunDir_def uid_def)
      have f2: "fsys t2 = after_second E (fsys s)"
        using tryTempDir_fsys[of E uid t1] b2
        by (simp add: r1' f1 after_second_def tempRunDir_def uid_def)
      show ?thesis
      proof (cases "second_ok E (fsys s)")
        case ok2: True
        with r2 have "r2 = tempRunDir E" by simp
        with ok2 no1 True show ?thesis
          using tempRunDir_nonempty[of E]
          by (simp add: useHomeDir_fst useHomeDir_dir first_resolution_def xdg_def)
      next
        case no2: False
        with r2 have "r2 = []" by simp
        with no2 no1 True show ?thesis
          by (simp add: useHomeDir_fst useHomeDir_dir first_resolution_def xdg_def f2 d2)
      qed
    qed
  qed
  show "fst (resolveRuntimeDir E s) = snd (first_resolution E (fsys s))"
    using goal by (simp add: res b1 b2)
  show "rootlessRuntimeDir (snd (resolveRuntimeDir E s)) =
     (if snd (first_resolution E (fsys s)) = None then fst (first_resolution E (fsys s))
      else rootlessRuntimeDir s)"
    using goal by (simp add: res b1 b2)
qed

lemma getRuntimeDir_first:
  assumes "\<not> rootlessRuntimeDirOnce s"
  shows "fst (getRuntimeDir E s) = first_resolution E (fsys s)"
    and "rootlessRuntimeDir (snd (getRuntimeDir E s)) =
     (if snd (first_resolution E (fsys s)) = None then fst (first_resolution E (fsys s))
      else rootlessRuntimeDir s)"
    and "rootlessRuntimeDirOnce (snd (getRuntimeDir E s))"
proof -
  obtain e s1 where r: "resolveRuntimeDir E s = (e, s1)"
    by (cases "resolveRuntimeDir E s")
  have e: "e = snd (first_resolution E (fsys s))"
    using resolveRuntimeDir_table(1)[of E s] by (simp add: r)
  have d: "rootlessRuntimeDir s1 =
     (if snd (first_resolution E (fsys s)) = None then fst (first_resolution E (fsys s))
      else rootlessRuntimeDir s)"
    using resolveRuntimeDir_table(2)[of E s] by (simp add: r)
  have g: "getRuntimeDir E s =
     (if e \<noteq> None then (([], e), s1\<lparr>rootlessRuntimeDirOnce := True\<rparr>)
      else ((rootlessRuntimeDir s1, None), s1\<lparr>rootlessRuntimeDirOnce := True\<rparr>))"
    using assms by (simp add: getRuntimeDir_def r)
  show "fst (getRuntimeDir E s) = first_resolution E (fsys s)"
  proof (cases "e = None")
    case True
    then show ?thesis using e d by (simp add: g prod_eq_iff)
  next
    case False
    then show ?thesis using e first_resolution_error[of E "fsys s"]
      by (simp add: g prod_eq_iff)
  qed
  show "rootlessRuntimeDir (snd (getRuntimeDir E s)) =
     (if snd (first_resolution E (fsys s)) = None then fst (first_resolution E (fsys s))
      else rootlessRuntimeDir s)"
    using d by (simp add: g)
  show "rootlessRuntimeDirOnce (snd (getRuntimeDir E s))"
    by (simp add: g)
qed

lemma getRuntimeDir_done:
  "rootlessRuntimeDirOnce s \<Longrightarrow> getRuntimeDir E s = ((rootlessRuntimeDir s, None), s)"
  by (simp add: getRuntimeDir_def)

lemma nth_call_done:
  "rootlessRuntimeDirOnce s \<Longrightarrow> nth_call E n s = ((rootlessRuntimeDir s, None), s)"
  by (induction n) (simp_all add: getRuntimeDir_done)

lemma getRuntimeDir_marks_once:
  "rootlessRuntimeDirOnce (snd (getRuntimeDir E s))"
  by (cases "rootlessRuntimeDirOnce s") (simp_all add: getRuntimeDir_done getRuntimeDir_first(3))

lemma nth_call_Suc:
  "nth_call E (Suc n) s =
     ((rootlessRuntimeDir (snd (getRuntimeDir E s)), None), snd (getRuntimeDir E s))"
  by (simp add: nth_call_done getRuntimeDir_marks_once)

subsection \<open>Evaluations on the concrete systems\<close>

lemma start_simps:
  "\<not> rootlessRuntimeDirOnce (start fs)" "rootlessRuntimeDir (start fs) = []"
  "fsys (start fs) = fs" "calls (start fs) = []"
  by (simp_all add: start_def)

lemma readonly_os_simps:
  "environ (readonly_os env uid) = env" "geteuid (readonly_os env uid) = uid"
  by (simp_all add: readonly_os_def)

lemma env_of_simps:
  "env_of [] k = []"
  "env_of [(''XDG_RUNTIME_DIR'', ''/custom/run'')] ''XDG_RUNTIME_DIR'' = ''/custom/run''"
  by (simp_all add: env_of_def)

lemma eval_dirs:
  "runUserDir (readonly_os (env_of []) 1000) = ''/run/user/1000''"
  "tempRunDir (readonly_os (env_of []) 1000) = ''/tmp/run-1000''"
  by code_simp+

lemma eval_ok_a:
  "first_ok (readonly_os (env_of []) 1000) [(''/run/user/1000'', dir0700)]"
  by code_simp

lemma eval_ok_b:
  "\<not> first_ok (readonly_os (env_of []) 1000)
       [(''/run/user/1000'', dir0755), (''/tmp/run-1000'', dir0700)]"
  "second_ok (readonly_os (env_of []) 1000)
       [(''/run/user/1000'', dir0755), (''/tmp/run-1000'', dir0700)]"
  by code_simp+

lemma eval_ok_c:
  "\<not> first_ok (readonly_os (env_of []) 1000) []"
  "\<not> second_ok (readonly_os (env_of []) 1000) []"
  by code_simp+

lemma eval_fail:
  "fst (getRuntimeDir (readonly_os (env_of []) 1000) (start [])) =
     ([], Some (ErrorString ''neither XDG_RUNTIME_DIR nor HOME was set non-empty''))"
  by code_simp

subsection \<open>The order of the strategies\<close>

text \<open>
  Claim C5: on the first resolution \<^verbatim>\<open>getRuntimeDir\<close> takes the override of the
  environment if it is not empty; otherwise \<^verbatim>\<open>/run/user/<uid>\<close> if, after the attempt to
  create it, its \<^verbatim>\<open>stat\<close> succeeds, its owner is the effective user and its permission
  bits are exactly \<^verbatim>\<open>0700\<close> (\<open>first_ok\<close>); otherwise \<^verbatim>\<open>run-<uid>\<close> under the temporary
  directory under the same test (\<open>second_ok\<close>); and if all three fail and \<^verbatim>\<open>HOME\<close> is
  empty, it fails with the error that neither variable was set. The first success wins,
  and a candidate that fails the test is not taken.
\<close>

theorem getRuntimeDir_first_resolution:
  assumes "\<not> rootlessRuntimeDirOnce s"
  shows "fst (getRuntimeDir E s) =
     (if environ E ''XDG_RUNTIME_DIR'' \<noteq> [] then (environ E ''XDG_RUNTIME_DIR'', None)
      else if first_ok E (fsys s) then (runUserDir E, None)
      else if second_ok E (fsys s) then (tempRunDir E, None)
      else if environ E ''HOME'' = [] then
        ([], Some (ErrorString ''neither XDG_RUNTIME_DIR nor HOME was set non-empty''))
      else home_result E (after_second E (fsys s)))"
  using getRuntimeDir_first(1)[OF assms, of E] by (simp add: first_resolution_def)

theorem getRuntimeDir_first_resolution_witness:
  "fst (getRuntimeDir (readonly_os (env_of [(''XDG_RUNTIME_DIR'', ''/custom/run'')]) 1000)
          (start [])) = (''/custom/run'', None)
   \<and> fst (getRuntimeDir (readonly_os (env_of []) 1000)
          (start [(''/run/user/1000'', dir0700)])) = (''/run/user/1000'', None)
   \<and> fst (getRuntimeDir (readonly_os (env_of []) 1000)
          (start [(''/run/user/1000'', dir0755), (''/tmp/run-1000'', dir0700)]))
        = (''/tmp/run-1000'', None)
   \<and> fst (getRuntimeDir (readonly_os (env_of []) 1000) (start []))
        = ([], Some (ErrorString ''neither XDG_RUNTIME_DIR nor HOME was set non-empty''))"
proof -
  have a: "fst (getRuntimeDir (readonly_os (env_of [(''XDG_RUNTIME_DIR'', ''/custom/run'')]) 1000)
          (start [])) = (''/custom/run'', None)"
    using getRuntimeDir_first_resolution[OF start_simps(1),
        of "readonly_os (env_of [(''XDG_RUNTIME_DIR'', ''/custom/run'')]) 1000" "[]"]
    by (simp add: readonly_os_simps env_of_simps)
  have b: "fst (getRuntimeDir (readonly_os (env_of []) 1000)
          (start [(''/run/user/1000'', dir0700)])) = (''/run/user/1000'', None)"
    using getRuntimeDir_first_resolution[OF start_simps(1),
        of "readonly_os (env_of []) 1000" "[(''/run/user/1000'', dir0700)]"]
    by (simp add: readonly_os_simps env_of_simps start_simps eval_dirs eval_ok_a)
  have c: "fst (getRuntimeDir (readonly_os (env_of []) 1000)
          (start [(''/run/user/1000'', dir0755), (''/tmp/run-1000'', dir0700)]))
        = (''/tmp/run-1000'', None)"
    using getRuntimeDir_first_resolution[OF start_simps(1),
        of "readonly_os (env_of []) 1000"
          "[(''/run/user/1000'', dir0755), (''/tmp/run-1000'', dir0700)]"]
    by (simp add: readonly_os_simps env_of_simps start_simps eval_dirs eval_ok_b)
  have d: "fst (getRuntimeDir (readonly_os (env_of []) 1000) (start []))
        = ([], Some (ErrorString ''neither XDG_RUNTIME_DIR nor HOME was set non-empty''))"
    using getRuntimeDir_first_resolution[OF start_simps(1),
        of "readonly_os (env_of []) 1000" "[]"]
    by (simp add: readonly_os_simps env_of_simps start_simps eval_ok_c)
  from a b c d show ?thesis by simp
qed

subsection \<open>Later calls\<close>

text \<open>
  A call after the first finds the \<^verbatim>\<open>sync.Once\<close> done: it returns the cached directory
  with a \<^verbatim>\<open>nil\<close> error and leaves the state as it is. When the first call succeeds,
  every later call returns the same result.
\<close>

lemma getRuntimeDir_success_cached:
  assumes "snd (fst (getRuntimeDir E s)) = None"
  shows "fst (nth_call E n s) = fst (getRuntimeDir E s)"
proof (cases n)
  case 0
  then show ?thesis by simp
next
  case (Suc m)
  have "fst (fst (getRuntimeDir E s)) = rootlessRuntimeDir (snd (getRuntimeDir E s))"
  proof (cases "rootlessRuntimeDirOnce s")
    case True
    then show ?thesis by (simp add: getRuntimeDir_done)
  next
    case False
    show ?thesis
      using assms getRuntimeDir_first(1)[OF False, of E] getRuntimeDir_first(2)[OF False, of E]
      by simp
  qed
  with assms show ?thesis unfolding Suc nth_call_Suc by (simp add: prod_eq_iff)
qed

text \<open>
  Claim C2 says that every later call returns the same pair of path and error as the
  first, also when the first failed. The code caches the path only: the error is a
  local variable of each call. With no override, no usable candidate and no home
  directory, the first call returns the error, and the second returns the empty path
  with a \<^verbatim>\<open>nil\<close> error.
\<close>

theorem getRuntimeDir_error_forgotten:
  "fst (nth_call (readonly_os (env_of []) 1000) 0 (start [])) =
     ([], Some (ErrorString ''neither XDG_RUNTIME_DIR nor HOME was set non-empty''))
   \<and> fst (nth_call (readonly_os (env_of []) 1000) (Suc 0) (start [])) = ([], None)
   \<and> fst (nth_call (readonly_os (env_of []) 1000) (Suc 0) (start []))
       \<noteq> fst (nth_call (readonly_os (env_of []) 1000) 0 (start []))"
  by code_simp

text \<open>
  Claim C4: in a process that starts (the cached path is the empty string), if the first
  call to \<^verbatim>\<open>getRuntimeDir\<close> fails, every later call returns the empty string and a
  \<^verbatim>\<open>nil\<close> error.
\<close>

theorem getRuntimeDir_error_not_cached:
  assumes "rootlessRuntimeDir s = []"
    and "snd (fst (getRuntimeDir E s)) \<noteq> None"
  shows "fst (nth_call E (Suc n) s) = ([], None)"
proof -
  have once: "\<not> rootlessRuntimeDirOnce s"
    using assms(2) by (auto simp: getRuntimeDir_done)
  have "snd (first_resolution E (fsys s)) \<noteq> None"
    using assms(2) getRuntimeDir_first(1)[OF once, of E] by simp
  then have "rootlessRuntimeDir (snd (getRuntimeDir E s)) = []"
    using getRuntimeDir_first(2)[OF once, of E] assms(1) by auto
  then show ?thesis unfolding nth_call_Suc by simp
qed

theorem getRuntimeDir_error_not_cached_witness:
  "rootlessRuntimeDir (start ([] :: (string \<times> fileInfo) list)) = []
   \<and> snd (fst (getRuntimeDir (readonly_os (env_of []) 1000) (start []))) =
       Some (ErrorString ''neither XDG_RUNTIME_DIR nor HOME was set non-empty'')
   \<and> fst (nth_call (readonly_os (env_of []) 1000) (Suc 2) (start [])) = ([], None)"
proof -
  have h: "snd (fst (getRuntimeDir (readonly_os (env_of []) 1000) (start []))) \<noteq> None"
    by (simp add: eval_fail)
  show ?thesis
    using getRuntimeDir_error_not_cached[OF start_simps(2) h, of 2]
    by (simp add: start_simps eval_fail)
qed

subsection \<open>The override\<close>

lemma getRuntimeDir_override:
  assumes "\<not> rootlessRuntimeDirOnce s" and "environ E ''XDG_RUNTIME_DIR'' \<noteq> []"
  shows "getRuntimeDir E s =
     ((environ E ''XDG_RUNTIME_DIR'', None),
      s\<lparr>rootlessRuntimeDirOnce := True, rootlessRuntimeDir := environ E ''XDG_RUNTIME_DIR'',
        calls := calls s @ [CallGetenv ''XDG_RUNTIME_DIR'']\<rparr>)"
  using assms
  by (simp add: getRuntimeDir_def resolveRuntimeDir_def os_Getenv_def tryRunUserDir_set
      tryTempDir_set useHomeDir_def)

text \<open>
  Claim C6: when the override \<^verbatim>\<open>XDG_RUNTIME_DIR\<close> is not empty at the first resolution,
  that call and every later one return its value unchanged, and no call touches the
  file system: the file system stays as it was, and the only call the process makes to
  its environment is the one read of the variable.
\<close>

theorem getRuntimeDir_override_no_filesystem:
  assumes "\<not> rootlessRuntimeDirOnce s" and "environ E ''XDG_RUNTIME_DIR'' \<noteq> []"
  shows "fst (nth_call E n s) = (environ E ''XDG_RUNTIME_DIR'', None)
       \<and> fsys (snd (nth_call E n s)) = fsys s
       \<and> calls (snd (nth_call E n s)) = calls s @ [CallGetenv ''XDG_RUNTIME_DIR'']
       \<and> filter is_fs_call (calls (snd (nth_call E n s))) = filter is_fs_call (calls s)"
proof (cases n)
  case 0
  then show ?thesis by (simp add: getRuntimeDir_override[OF assms])
next
  case (Suc m)
  show ?thesis unfolding Suc nth_call_Suc by (simp add: getRuntimeDir_override[OF assms])
qed

theorem getRuntimeDir_override_no_filesystem_witness:
  "fst (nth_call (readonly_os (env_of [(''XDG_RUNTIME_DIR'', ''/custom/run'')]) 1000) 3
          (start [(''/run/user/1000'', dir0700)])) = (''/custom/run'', None)
   \<and> fsys (snd (nth_call (readonly_os (env_of [(''XDG_RUNTIME_DIR'', ''/custom/run'')]) 1000) 3
          (start [(''/run/user/1000'', dir0700)]))) = [(''/run/user/1000'', dir0700)]
   \<and> calls (snd (nth_call (readonly_os (env_of [(''XDG_RUNTIME_DIR'', ''/custom/run'')]) 1000) 3
          (start [(''/run/user/1000'', dir0700)]))) = [CallGetenv ''XDG_RUNTIME_DIR'']"
  using getRuntimeDir_override_no_filesystem[of "start [(''/run/user/1000'', dir0700)]"
      "readonly_os (env_of [(''XDG_RUNTIME_DIR'', ''/custom/run'')]) 1000" 3]
  by (simp add: readonly_os_simps env_of_simps start_simps)

section \<open>The temporary directory\<close>

subsection \<open>unshare.IsRootless\<close>

text \<open>
  The call never touches the file system; it reads the environment variable exactly
  when it is the first call and the effective user is root.
\<close>

lemma unshare_IsRootless_fsys:
  "fsys (snd (unshare_IsRootless E s)) = fsys s"
  by (simp add: unshare_IsRootless_def os_Getenv_def)

lemma unshare_IsRootless_calls:
  "calls (snd (unshare_IsRootless E s)) =
     (if isRootlessOnce s \<or> geteuid E \<noteq> 0 then calls s
      else calls s @ [CallGetenv ''_CONTAINERS_USERNS_CONFIGURED''])"
  by (simp add: unshare_IsRootless_def os_Getenv_def)

lemma unshare_IsRootless_false_root:
  "\<not> fst (unshare_IsRootless E s) \<Longrightarrow> \<not> isRootlessOnce s \<Longrightarrow> geteuid E = 0"
  by (simp add: unshare_IsRootless_def split: if_splits)

lemma defaultTmpDir_unfold_not_rootless:
  "\<not> fst (unshare_IsRootless E s) \<Longrightarrow>
   defaultTmpDir E s = ((''/var/run/libpod'', None), snd (unshare_IsRootless E s))"
  by (simp add: defaultTmpDir_def split_def)

subsection \<open>The process that is not rootless\<close>

text \<open>
  Claim C10 says that, when the process is not rootless, \<^verbatim>\<open>defaultTmpDir\<close> returns
  \<^verbatim>\<open>/var/run/libpod\<close> and reads no environment variable. To find out that the process
  is not rootless, \<^verbatim>\<open>defaultTmpDir\<close> calls \<^verbatim>\<open>unshare.IsRootless\<close>, and in a process of
  root that has not asked before, that call reads \<^verbatim>\<open>_CONTAINERS_USERNS_CONFIGURED\<close>: in
  a process of user 0 that starts with an empty environment, \<^verbatim>\<open>defaultTmpDir\<close> returns
  \<^verbatim>\<open>/var/run/libpod\<close>, and one environment variable has been read.
\<close>

theorem defaultTmpDir_reads_environment:
  "\<not> fst (unshare_IsRootless (readonly_os (env_of []) 0) (start []))
   \<and> fst (defaultTmpDir (readonly_os (env_of []) 0) (start [])) = (''/var/run/libpod'', None)
   \<and> calls (start ([] :: (string \<times> fileInfo) list)) = []
   \<and> calls (snd (defaultTmpDir (readonly_os (env_of []) 0) (start []))) =
       [CallGetenv ''_CONTAINERS_USERNS_CONFIGURED'']"
  by code_simp

text \<open>
  Claim C10 as amended: whenever the process is not rootless (\<^verbatim>\<open>unshare.IsRootless\<close>
  answers false), \<^verbatim>\<open>defaultTmpDir\<close> returns \<^verbatim>\<open>/var/run/libpod\<close> and a \<^verbatim>\<open>nil\<close> error and
  performs no file system operation; it does nothing beyond its call to
  \<^verbatim>\<open>unshare.IsRootless\<close>, so it reads no environment variable when the answer of
  \<^verbatim>\<open>unshare.IsRootless\<close> is cached already, and exactly the one variable
  \<^verbatim>\<open>_CONTAINERS_USERNS_CONFIGURED\<close> when it is not.
\<close>

theorem defaultTmpDir_not_rootless:
  assumes "\<not> fst (unshare_IsRootless E s)"
  shows "fst (defaultTmpDir E s) = (''/var/run/libpod'', None)
       \<and> snd (defaultTmpDir E s) = snd (unshare_IsRootless E s)
       \<and> fsys (snd (defaultTmpDir E s)) = fsys s
       \<and> filter is_fs_call (calls (snd (defaultTmpDir E s))) = filter is_fs_call (calls s)
       \<and> calls (snd (defaultTmpDir E s)) =
           (if isRootlessOnce s then calls s
            else calls s @ [CallGetenv ''_CONTAINERS_USERNS_CONFIGURED''])"
proof -
  have d: "defaultTmpDir E s = ((''/var/run/libpod'', None), snd (unshare_IsRootless E s))"
    using assms by (rule defaultTmpDir_unfold_not_rootless)
  have c: "calls (snd (unshare_IsRootless E s)) =
           (if isRootlessOnce s then calls s
            else calls s @ [CallGetenv ''_CONTAINERS_USERNS_CONFIGURED''])"
  proof (cases "isRootlessOnce s")
    case True
    then show ?thesis by (simp add: unshare_IsRootless_calls)
  next
    case False
    with assms have "geteuid E = 0" by (simp add: unshare_IsRootless_false_root)
    with False show ?thesis by (simp add: unshare_IsRootless_calls)
  qed
  show ?thesis
    by (simp add: d c unshare_IsRootless_fsys)
qed

lemma eval_not_rootless:
  "\<not> fst (unshare_IsRootless (readonly_os (env_of []) 0) (start []))"
  "\<not> fst (unshare_IsRootless (readonly_os (env_of []) 0)
        ((start [])\<lparr>isRootlessOnce := True, isRootless := False\<rparr>))"
  by code_simp+

theorem defaultTmpDir_not_rootless_witness:
  "fst (defaultTmpDir (readonly_os (env_of []) 0) (start [(''/run/user/1000'', dir0700)]))
     = (''/var/run/libpod'', None)
   \<and> fsys (snd (defaultTmpDir (readonly_os (env_of []) 0)
        (start [(''/run/user/1000'', dir0700)]))) = [(''/run/user/1000'', dir0700)]
   \<and> calls (snd (defaultTmpDir (readonly_os (env_of []) 0)
        (start [(''/run/user/1000'', dir0700)]))) = [CallGetenv ''_CONTAINERS_USERNS_CONFIGURED'']
   \<and> fst (defaultTmpDir (readonly_os (env_of []) 0)
        ((start [])\<lparr>isRootlessOnce := True, isRootless := False\<rparr>))
     = (''/var/run/libpod'', None)
   \<and> calls (snd (defaultTmpDir (readonly_os (env_of []) 0)
        ((start [])\<lparr>isRootlessOnce := True, isRootless := False\<rparr>))) = []"
proof -
  have h1: "\<not> fst (unshare_IsRootless (readonly_os (env_of []) 0)
      (start [(''/run/user/1000'', dir0700)]))"
    by code_simp
  note a = defaultTmpDir_not_rootless[OF h1]
  note b = defaultTmpDir_not_rootless[OF eval_not_rootless(2)]
  have once: "\<not> isRootlessOnce (start [(''/run/user/1000'', dir0700)])"
    by (simp add: start_def)
  have a1: "fst (defaultTmpDir (readonly_os (env_of []) 0)
        (start [(''/run/user/1000'', dir0700)])) = (''/var/run/libpod'', None)"
    using a[THEN conjunct1] .
  have a3: "fsys (snd (defaultTmpDir (readonly_os (env_of []) 0)
        (start [(''/run/user/1000'', dir0700)]))) = [(''/run/user/1000'', dir0700)]"
    using a[THEN conjunct2, THEN conjunct2, THEN conjunct1] by (simp add: start_simps)
  have a5: "calls (snd (defaultTmpDir (readonly_os (env_of []) 0)
        (start [(''/run/user/1000'', dir0700)]))) = [CallGetenv ''_CONTAINERS_USERNS_CONFIGURED'']"
    using a[THEN conjunct2, THEN conjunct2, THEN conjunct2, THEN conjunct2] once
    by (simp add: start_simps)
  have b1: "fst (defaultTmpDir (readonly_os (env_of []) 0)
        ((start [])\<lparr>isRootlessOnce := True, isRootless := False\<rparr>))
     = (''/var/run/libpod'', None)"
    using b[THEN conjunct1] .
  have b5: "calls (snd (defaultTmpDir (readonly_os (env_of []) 0)
        ((start [])\<lparr>isRootlessOnce := True, isRootless := False\<rparr>))) = []"
    using b[THEN conjunct2, THEN conjunct2, THEN conjunct2, THEN conjunct2]
    by (simp add: start_simps)
  from a1 a3 a5 b1 b5 show ?thesis by simp
qed

end
